theory Spec2Isabelle
  imports Complex_Main
begin

section \<open>Data model of the recipe card (FullScreenRecipeCard.tsx)\<close>

text \<open>
  The card is a React function component.  Its props, its \<open>useState\<close> cells, its refs and the
  two media elements it owns are the fields of one record; every effect and every event handler
  of the component is a function from that record to its successor.  Times are seconds, as the
  DOM reports them, taken in \<open>real\<close>.  URLs are taken to be absolute, so that the \<open>src\<close> getter of
  a media element returns the string that was assigned to it.
\<close>

datatype difficulty = easy | medium | hard

record recipe =
  title :: string
  time_minutes :: nat
  difficulty :: difficulty
  steps :: "string list"
  missing_items :: "string list"

text \<open>
  The plan, with the optional per-recipe tables the components read through \<open>?.\<close>: an absent
  table is \<open>None\<close>, a table is the list of its entries.
\<close>

record culinary_plan =
  ingredients :: "string list"
  recipes :: "recipe list"
  planVideoUrls :: "string list option"
  recipeVideos :: "(nat \<times> string list) list option"
  recipeVoiceovers :: "(nat \<times> string) list option"

text \<open>
  The audio element.  \<open>a_duration = None\<close> stands for the \<open>NaN\<close> the DOM reports before metadata
  arrives.  \<open>a_oncanplay\<close> is the \<open>oncanplay\<close> handler property: the handler is a closure, and
  what it closes over (\<open>isVisible\<close>, \<open>isVoiceoverMuted\<close> at the time it was installed) is all
  that distinguishes one instance from another.  \<open>a_onceLoadedData\<close> and \<open>a_onceCanPlay\<close> count the
  pending \<open>{ once: true }\<close> listeners that call \<open>attemptPlay\<close>.  \<open>a_playCalls\<close> counts the calls
  of \<open>play()\<close> made on the element.
\<close>

record audio_element =
  a_src :: string
  a_volume :: real
  a_loop :: bool
  a_paused :: bool
  a_currentTime :: real
  a_duration :: "real option"
  a_readyState :: nat
  a_oncanplay :: "(bool \<times> bool) option"
  a_onceLoadedData :: nat
  a_onceCanPlay :: nat
  a_playCalls :: nat

text \<open>
  The video element, rendered with the attributes \<open>muted autoPlay playsInline loop\<close>.
  \<open>v_duration = None\<close> is \<open>NaN\<close>.
\<close>

record video_element =
  v_src :: string
  v_muted :: bool
  v_autoPlay :: bool
  v_loop :: bool
  v_paused :: bool
  v_currentTime :: real
  v_duration :: "real option"

text \<open>
  The closure of the audio/video sync effect: \<open>lastVideoTime\<close> and the pending \<open>syncTimeout\<close>,
  kept as the time (in milliseconds) at which the timeout is due together with the video time
  \<open>currentTime\<close> that its callback closed over.
\<close>

record sync_closure =
  lastVideoTime :: real
  syncTimeout :: "(nat \<times> real) option"

record stop_event =
  exceptIndex :: nat
  newVisibleIndex :: nat

datatype log_entry =
  AutoPlayBlocked
  | PlayAfterLoadPrevented
  | PlayFailed
  | RestartAudioFailed
  | SyncAudioOnVideoLoopFailed

text \<open>
  \<open>clock\<close> is the time in milliseconds, needed by \<open>setTimeout\<close>.  \<open>dispatched\<close> lists the
  \<open>stopAllRecipeAudio\<close> events the card has handed to \<open>window.dispatchEvent\<close>; \<open>console\<close> lists
  what its rejection handlers have logged.
\<close>

record card =
  recipe :: recipe
  videoUrls :: "string list"
  culinaryPlan :: "culinary_plan option"
  isVisible :: bool
  recipeIndex :: nat
  isDetailsVisible :: bool
  isVoiceoverPlaying :: bool
  isVoiceoverMuted :: bool
  isFavorited :: bool
  showLoginPrompt :: bool
  prevVisibleRef :: bool
  videoRef :: "video_element option"
  audioRef :: "audio_element option"
  syncClosure :: "sync_closure option"
  clock :: nat
  dispatched :: "stop_event list"
  console :: "log_entry list"

text \<open>\<open>const hasVideo = videoUrls.length > 0\<close>\<close>

definition hasVideo :: "card \<Rightarrow> bool" where
  "hasVideo c = (length (videoUrls c) > 0)"

text \<open>\<open>const voiceoverUrl = culinaryPlan?.recipeVoiceovers?.[recipeIndex]\<close>\<close>

definition voiceoverUrl :: "card \<Rightarrow> string option" where
  "voiceoverUrl c =
     (case culinaryPlan c of
        None \<Rightarrow> None
      | Some p \<Rightarrow> (case recipeVoiceovers p of
                    None \<Rightarrow> None
                  | Some m \<Rightarrow> map_of m (recipeIndex c)))"

text \<open>\<open>const hasVoiceover = !!voiceoverUrl\<close>: an empty string is falsy.\<close>

definition hasVoiceover :: "card \<Rightarrow> bool" where
  "hasVoiceover c = (case voiceoverUrl c of None \<Rightarrow> False | Some u \<Rightarrow> u \<noteq> [])"

section \<open>The favorite button\<close>

text \<open>
  The \<open>onClick\<close> handler of the favorite button.  \<open>authService\<close> and \<open>favoritesService\<close> are
  collaborators outside the component: the answer of \<open>isAuthenticated()\<close> and the two store
  operations are parameters.  The state is the card, the favorites store, and the number of
  times \<open>onFavoriteChange\<close> has been called.
\<close>

definition toggleFavorite ::
  "bool \<Rightarrow> (card \<Rightarrow> 'store \<Rightarrow> 'store) \<Rightarrow> (card \<Rightarrow> 'store \<Rightarrow> 'store)
     \<Rightarrow> card \<times> 'store \<times> nat \<Rightarrow> card \<times> 'store \<times> nat" where
  "toggleFavorite isAuthenticated addFavorite removeFavorite s =
     (case s of (c, store, notified) \<Rightarrow>
        if \<not> isAuthenticated then (c\<lparr>showLoginPrompt := True\<rparr>, store, notified)
        else (case culinaryPlan c of
                None \<Rightarrow> (c, store, notified)
              | Some p \<Rightarrow>
                  if isFavorited c
                  then (c\<lparr>isFavorited := False\<rparr>, removeFavorite c store, notified + 1)
                  else (c\<lparr>isFavorited := True\<rparr>, addFavorite c store, notified + 1)))"


section \<open>Media element operations\<close>

text \<open>
  \<open>play()\<close> on the audio element.  Whether the platform grants the request is the environment's
  choice, passed as \<open>allowed\<close>: a granted request clears \<open>paused\<close> at once; a rejected one
  (\<open>NotAllowedError\<close>) leaves the element as it was and rejects the returned promise.
\<close>

definition play :: "bool \<Rightarrow> audio_element \<Rightarrow> audio_element" where
  "play allowed a =
     a\<lparr>a_paused := (if allowed then False else a_paused a), a_playCalls := a_playCalls a + 1\<rparr>"

definition pause :: "audio_element \<Rightarrow> audio_element" where
  "pause a = a\<lparr>a_paused := True\<rparr>"

text \<open>\<open>load()\<close> restarts resource selection: nothing is buffered, the element is paused at 0.\<close>

definition load :: "audio_element \<Rightarrow> audio_element" where
  "load a = a\<lparr>a_paused := True, a_currentTime := 0, a_duration := None, a_readyState := 0\<rparr>"

text \<open>
  \<open>audioElement.play().catch(e => console...(entry))\<close>.  The component listens for the
  element's \<open>play\<close> event with \<open>handlePlay\<close>, which sets \<open>isVoiceoverPlaying\<close>; the event is fired
  when a granted request takes the element out of \<open>paused\<close>, and is applied here in the same step.
\<close>

definition playAndCatch :: "bool \<Rightarrow> log_entry \<Rightarrow> card \<Rightarrow> card" where
  "playAndCatch allowed entry c =
     (case audioRef c of
        None \<Rightarrow> c
      | Some a \<Rightarrow>
          if allowed
          then c\<lparr>audioRef := Some (play True a),
                 isVoiceoverPlaying := (if a_paused a then True else isVoiceoverPlaying c)\<rparr>
          else c\<lparr>audioRef := Some (play False a), console := console c @ [entry]\<rparr>)"

text \<open>
  \<open>audioElement.pause()\<close> followed by \<open>audioElement.currentTime = 0\<close> and
  \<open>setIsVoiceoverPlaying(false)\<close>: the stop sequence the component uses in three places.
\<close>

definition stopAudio :: "audio_element \<Rightarrow> card \<Rightarrow> card" where
  "stopAudio a c = c\<lparr>audioRef := Some ((pause a)\<lparr>a_currentTime := 0\<rparr>), isVoiceoverPlaying := False\<rparr>"

section \<open>Effects and handlers of the card\<close>

text \<open>
  The first effect, the "global audio manager": a card that has just become visible dispatches
  \<open>stopAllRecipeAudio\<close> with its own \<open>recipeIndex\<close> in both detail fields.
\<close>

definition stopAllAudioEvent :: "card \<Rightarrow> stop_event option" where
  "stopAllAudioEvent c =
     (if isVisible c \<and> \<not> prevVisibleRef c
      then Some \<lparr>exceptIndex = recipeIndex c, newVisibleIndex = recipeIndex c\<rparr>
      else None)"

definition announceEffect :: "card \<Rightarrow> card" where
  "announceEffect c =
     (case stopAllAudioEvent c of
        None \<Rightarrow> c
      | Some ev \<Rightarrow> c\<lparr>dispatched := dispatched c @ [ev]\<rparr>)"

text \<open>The listener every mounted card registers for \<open>stopAllRecipeAudio\<close>.\<close>

definition handleStopAudio :: "stop_event \<Rightarrow> card \<Rightarrow> card" where
  "handleStopAudio event c =
     (if exceptIndex event \<noteq> recipeIndex c \<and> newVisibleIndex event \<noteq> recipeIndex c
      then (case audioRef c of None \<Rightarrow> c | Some a \<Rightarrow> stopAudio a c)
      else c)"

text \<open>
  The video loading effect.  \<open>load()\<close> puts the video at 0; the \<open>play()\<close> of the muted video is
  taken to be granted.
\<close>

definition videoLoadEffect :: "card \<Rightarrow> card" where
  "videoLoadEffect c =
     (case videoRef c of
        None \<Rightarrow> c
      | Some v \<Rightarrow>
          (case videoUrls c of
             [] \<Rightarrow> c
           | videoUrl # _ \<Rightarrow>
               if v_src v \<noteq> videoUrl
               then c\<lparr>videoRef := Some (v\<lparr>v_src := videoUrl, v_paused := False,
                                            v_currentTime := 0, v_duration := None\<rparr>)\<rparr>
               else c))"

text \<open>The voiceover loading effect.  The volume is 0 when muted and 0.7 otherwise.\<close>

definition voiceoverVolume :: "card \<Rightarrow> real" where
  "voiceoverVolume c = (if isVoiceoverMuted c then 0 else 0.7)"

definition audioLoadEffect :: "card \<Rightarrow> card" where
  "audioLoadEffect c =
     (case audioRef c of
        None \<Rightarrow> c
      | Some a \<Rightarrow>
          (case voiceoverUrl c of
             None \<Rightarrow> c
           | Some url \<Rightarrow>
               if url = [] then c
               else if a_src a \<noteq> url
               then c\<lparr>audioRef := Some ((load (a\<lparr>a_src := url, a_volume := voiceoverVolume c,
                                                   a_loop := True\<rparr>))
                                         \<lparr>a_oncanplay := Some (isVisible c, isVoiceoverMuted c)\<rparr>)\<rparr>
               else c\<lparr>audioRef := Some (a\<lparr>a_volume := voiceoverVolume c\<rparr>)\<rparr>))"

text \<open>
  \<open>attemptPlay\<close>, the closure of the play/pause effect: rewind, request playback, and set
  \<open>isVoiceoverPlaying\<close> when the promise resolves; a rejection is logged and nothing else.
\<close>

definition attemptPlay :: "bool \<Rightarrow> card \<Rightarrow> card" where
  "attemptPlay allowed c =
     (case audioRef c of
        None \<Rightarrow> c
      | Some a \<Rightarrow>
          if allowed
          then c\<lparr>audioRef := Some (play True (a\<lparr>a_currentTime := 0\<rparr>)), isVoiceoverPlaying := True\<rparr>
          else c\<lparr>audioRef := Some (play False (a\<lparr>a_currentTime := 0\<rparr>)),
                 console := console c @ [AutoPlayBlocked]\<rparr>)"

text \<open>
  The play/pause effect.  Its four branches are those of the source, in the source's order; the
  last line updates \<open>prevVisibleRef\<close>.  When the audio is not ready (\<open>readyState < 2\<close>) the effect
  adds one \<open>loadeddata\<close> and one \<open>canplay\<close> listener, each \<open>{ once: true }\<close>, and the effect has no
  cleanup that would remove them.
\<close>

definition playPauseEffect :: "bool \<Rightarrow> card \<Rightarrow> card" where
  "playPauseEffect allowed c =
     (case audioRef c of
        None \<Rightarrow> c
      | Some a \<Rightarrow>
          if \<not> hasVoiceover c then c
          else
            let wasVisible = prevVisibleRef c;
                justBecameVisible = (isVisible c \<and> \<not> wasVisible);
                justBecameHidden = (\<not> isVisible c \<and> wasVisible);
                c' =
                  (if justBecameVisible \<and> \<not> isVoiceoverMuted c then
                     (let a0 = a\<lparr>a_currentTime := 0\<rparr> in
                      if a_readyState a0 \<ge> 2 then attemptPlay allowed (c\<lparr>audioRef := Some a0\<rparr>)
                      else
                        (let a1 = a0\<lparr>a_onceLoadedData := a_onceLoadedData a0 + 1,
                                      a_onceCanPlay := a_onceCanPlay a0 + 1\<rparr>
                         in c\<lparr>audioRef := Some (if a_readyState a1 = 0 then load a1 else a1)\<rparr>))
                   else if justBecameHidden then stopAudio a c
                   else if isVisible c \<and> \<not> isVoiceoverMuted c \<and> a_paused a \<and> \<not> justBecameVisible
                     then playAndCatch allowed PlayFailed c
                   else if \<not> isVisible c \<and> \<not> a_paused a then stopAudio a c
                   else c)
            in c'\<lparr>prevVisibleRef := isVisible c\<rparr>)"


text \<open>
  The \<open>ended\<close> listener of the audio element.  The effect that registers it depends on
  \<open>isVisible\<close> and \<open>isVoiceoverMuted\<close>, so the listener always sees their current values.
\<close>

definition handleEnded :: "bool \<Rightarrow> card \<Rightarrow> card" where
  "handleEnded allowed c =
     (case audioRef c of
        None \<Rightarrow> c
      | Some a \<Rightarrow>
          if isVisible c \<and> \<not> isVoiceoverMuted c
          then playAndCatch allowed RestartAudioFailed (c\<lparr>audioRef := Some (a\<lparr>a_currentTime := 0\<rparr>)\<rparr>)
          else c)"

text \<open>
  The \<open>oncanplay\<close> handler installed by the voiceover loading effect.  It is installed only when
  the source is first set, and decides on the \<open>isVisible\<close> and \<open>isVoiceoverMuted\<close> it closed over.
\<close>

definition oncanplayHandler :: "bool \<Rightarrow> card \<Rightarrow> card" where
  "oncanplayHandler allowed c =
     (case audioRef c of
        None \<Rightarrow> c
      | Some a \<Rightarrow>
          (case a_oncanplay a of
             None \<Rightarrow> c
           | Some (capturedVisible, capturedMuted) \<Rightarrow>
               if capturedVisible \<and> \<not> capturedMuted
               then playAndCatch allowed PlayAfterLoadPrevented
                      (c\<lparr>audioRef := Some (a\<lparr>a_currentTime := 0\<rparr>)\<rparr>)
               else c))"

text \<open>Running \<open>attemptPlay\<close> once for each of \<open>n\<close> pending once-listeners.\<close>

fun attemptPlayTimes :: "nat \<Rightarrow> bool \<Rightarrow> card \<Rightarrow> card" where
  "attemptPlayTimes 0 allowed c = c"
| "attemptPlayTimes (Suc n) allowed c = attemptPlayTimes n allowed (attemptPlay allowed c)"

text \<open>
  The audio element fires \<open>loadeddata\<close> (the element has reached \<open>HAVE_CURRENT_DATA\<close> and knows
  its duration): the pending \<open>loadeddata\<close> once-listeners run and are gone.
\<close>

definition audioLoadedData :: "bool \<Rightarrow> real \<Rightarrow> card \<Rightarrow> card" where
  "audioLoadedData allowed dur c =
     (case audioRef c of
        None \<Rightarrow> c
      | Some a \<Rightarrow>
          attemptPlayTimes (a_onceLoadedData a) allowed
            (c\<lparr>audioRef := Some (a\<lparr>a_duration := Some dur, a_readyState := max 2 (a_readyState a),
                                    a_onceLoadedData := 0\<rparr>)\<rparr>))"

text \<open>
  The audio element fires \<open>canplay\<close> (\<open>HAVE_FUTURE_DATA\<close>): first the \<open>oncanplay\<close> property handler,
  registered first, then the pending \<open>canplay\<close> once-listeners.
\<close>

definition audioCanPlay :: "bool \<Rightarrow> card \<Rightarrow> card" where
  "audioCanPlay allowed c =
     (case audioRef c of
        None \<Rightarrow> c
      | Some a \<Rightarrow>
          attemptPlayTimes (a_onceCanPlay a) allowed
            (oncanplayHandler allowed
               (c\<lparr>audioRef := Some (a\<lparr>a_readyState := max 3 (a_readyState a), a_onceCanPlay := 0\<rparr>)\<rparr>)))"

text \<open>
  The sync effect: its cleanup removes the \<open>timeupdate\<close> listener and clears the timeout, its
  body returns early unless the card is visible and has both media, and otherwise starts a fresh
  closure with \<open>lastVideoTime = 0\<close> and no timeout.
\<close>

definition syncEffect :: "card \<Rightarrow> card" where
  "syncEffect c =
     (if videoRef c = None \<or> audioRef c = None \<or> \<not> hasVideo c \<or> \<not> hasVoiceover c \<or> \<not> isVisible c
      then c\<lparr>syncClosure := None\<rparr>
      else c\<lparr>syncClosure := Some \<lparr>lastVideoTime = 0, syncTimeout = None\<rparr>\<rparr>)"

text \<open>
  \<open>handleVideoTimeUpdate\<close>, the \<open>timeupdate\<close> listener of the video.  It exists only while the
  sync closure does.  \<open>duration && ...\<close> is false for a duration of 0 or \<open>NaN\<close>.  The last
  statement replaces whatever timeout was pending by one due 2000 ms from now.
\<close>

definition videoLooped :: "real option \<Rightarrow> real \<Rightarrow> real \<Rightarrow> bool" where
  "videoLooped duration lastTime currentTime =
     (case duration of
        None \<Rightarrow> False
      | Some d \<Rightarrow> d \<noteq> 0 \<and> lastTime > d - 0.3 \<and> currentTime < 0.3)"

definition handleVideoTimeUpdate :: "bool \<Rightarrow> card \<Rightarrow> card" where
  "handleVideoTimeUpdate allowed c =
     (case syncClosure c of
        None \<Rightarrow> c
      | Some s \<Rightarrow>
          (case videoRef c of
             None \<Rightarrow> c
           | Some v \<Rightarrow>
               (case audioRef c of
                  None \<Rightarrow> c
                | Some a \<Rightarrow>
                    let currentTime = v_currentTime v;
                        c1 = (if videoLooped (v_duration v) (lastVideoTime s) currentTime
                                  \<and> \<not> isVoiceoverMuted c
                              then (let c0 = c\<lparr>audioRef := Some (a\<lparr>a_currentTime := 0\<rparr>)\<rparr>
                                    in if a_paused a
                                       then playAndCatch allowed SyncAudioOnVideoLoopFailed c0
                                       else c0)
                              else c)
                    in c1\<lparr>syncClosure :=
                            Some \<lparr>lastVideoTime = currentTime,
                                  syncTimeout = Some (clock c + 2000, currentTime)\<rparr>\<rparr>)))"

text \<open>The video reports a new time: the element's position changes and \<open>timeupdate\<close> fires.\<close>

definition videoTimeUpdate :: "bool \<Rightarrow> real \<Rightarrow> card \<Rightarrow> card" where
  "videoTimeUpdate allowed t c =
     (case videoRef c of
        None \<Rightarrow> c
      | Some v \<Rightarrow> handleVideoTimeUpdate allowed (c\<lparr>videoRef := Some (v\<lparr>v_currentTime := t\<rparr>)\<rparr>))"

text \<open>
  JavaScript's \<open>x % d\<close> on numbers: the remainder of the division truncated towards zero,
  \<open>NaN\<close> (here \<open>None\<close>) when \<open>d\<close> is 0.
\<close>

definition jsRemainder :: "real \<Rightarrow> real \<Rightarrow> real option" where
  "jsRemainder x d =
     (if d = 0 then None
      else Some (x - d * of_int (if x / d \<ge> 0 then \<lfloor>x / d\<rfloor> else \<lceil>x / d\<rceil>)))"

text \<open>
  The callback of \<open>syncTimeout\<close>.  \<open>currentTime\<close> is the video time the callback closed over
  when the timeout was set.  A comparison with \<open>NaN\<close> is false, so nothing happens without a
  usable audio duration.
\<close>

definition syncTimeoutCallback :: "real \<Rightarrow> card \<Rightarrow> card" where
  "syncTimeoutCallback currentTime c =
     (case videoRef c of
        None \<Rightarrow> c
      | Some v \<Rightarrow>
          (case audioRef c of
             None \<Rightarrow> c
           | Some a \<Rightarrow>
               if \<not> a_paused a \<and> \<not> v_paused v
               then (case a_duration a of
                       None \<Rightarrow> c
                     | Some d \<Rightarrow>
                         (case jsRemainder currentTime d of
                            None \<Rightarrow> c
                          | Some expected \<Rightarrow>
                              if \<bar>a_currentTime a - expected\<bar> > 1.0
                              then c\<lparr>audioRef := Some (a\<lparr>a_currentTime := expected\<rparr>)\<rparr>
                              else c))
               else c))"

text \<open>
  Time passes until \<open>now\<close> (milliseconds): a pending timeout that has come due runs its callback
  and is spent.
\<close>

definition advanceClock :: "nat \<Rightarrow> card \<Rightarrow> card" where
  "advanceClock now c =
     (case syncClosure c of
        None \<Rightarrow> c\<lparr>clock := now\<rparr>
      | Some s \<Rightarrow>
          (case syncTimeout s of
             None \<Rightarrow> c\<lparr>clock := now\<rparr>
           | Some (due, currentTime) \<Rightarrow>
               if due \<le> now
               then (syncTimeoutCallback currentTime c)
                      \<lparr>syncClosure := Some (s\<lparr>syncTimeout := None\<rparr>), clock := now\<rparr>
               else c\<lparr>clock := now\<rparr>))"


text \<open>\<open>handleVideoEnded\<close>, the \<open>onEnded\<close> handler of the video.\<close>

definition handleVideoEnded :: "bool \<Rightarrow> card \<Rightarrow> card" where
  "handleVideoEnded allowed c =
     (case videoRef c of
        None \<Rightarrow> c
      | Some v \<Rightarrow>
          if \<not> hasVideo c then c
          else
            let c0 = c\<lparr>videoRef := Some (v\<lparr>v_currentTime := 0, v_paused := False\<rparr>)\<rparr>
            in (case audioRef c0 of
                  None \<Rightarrow> c0
                | Some a \<Rightarrow>
                    if hasVoiceover c0 \<and> isVisible c0 \<and> \<not> isVoiceoverMuted c0
                    then (let c1 = c0\<lparr>audioRef := Some (a\<lparr>a_currentTime := 0\<rparr>)\<rparr>
                          in if a_paused a then playAndCatch allowed RestartAudioFailed c1 else c1)
                    else c0))"

text \<open>
  \<open>toggleVoiceover\<close>, the play/pause button.  \<open>pause()\<close> on a playing element fires \<open>pause\<close>,
  whose listener \<open>handlePause\<close> clears \<open>isVoiceoverPlaying\<close>; on a paused element it does nothing.
\<close>

definition toggleVoiceover :: "bool \<Rightarrow> card \<Rightarrow> card" where
  "toggleVoiceover allowed c =
     (case audioRef c of
        None \<Rightarrow> c
      | Some a \<Rightarrow>
          if isVoiceoverPlaying c
          then (if a_paused a then c
                else c\<lparr>audioRef := Some (pause a), isVoiceoverPlaying := False\<rparr>)
          else playAndCatch allowed PlayFailed c)"

text \<open>
  \<open>toggleVoiceoverMute\<close>, the mute button, followed by the effects that depend on
  \<open>isVoiceoverMuted\<close>, in the order the component declares them.
\<close>

definition toggleVoiceoverMute :: "bool \<Rightarrow> card \<Rightarrow> card" where
  "toggleVoiceoverMute allowed c =
     (case audioRef c of
        None \<Rightarrow> c
      | Some a \<Rightarrow>
          let newMuted = (\<not> isVoiceoverMuted c);
              c0 = c\<lparr>audioRef := Some (a\<lparr>a_volume := (if newMuted then 0 else 0.7)\<rparr>),
                     isVoiceoverMuted := newMuted\<rparr>
          in syncEffect (playPauseEffect allowed (audioLoadEffect c0)))"

text \<open>
  The effect that asks \<open>favoritesService.isFavorite\<close>; the service's answer is a parameter.
\<close>

definition favoritedEffect :: "bool \<Rightarrow> card \<Rightarrow> card" where
  "favoritedEffect isFavorite c =
     (case culinaryPlan c of None \<Rightarrow> c | Some p \<Rightarrow> c\<lparr>isFavorited := isFavorite\<rparr>)"

section \<open>Rendering and mounting\<close>

text \<open>
  What the component renders behind the text: the video element when there are video URLs, the
  gradient \<open>div\<close> otherwise.  The audio element is rendered only under \<open>hasVoiceover\<close>.
\<close>

datatype background = VideoBackground video_element | GradientPlaceholder

definition renderedVideo :: video_element where
  "renderedVideo =
     \<lparr>v_src = [], v_muted = True, v_autoPlay = True, v_loop = True, v_paused = True,
      v_currentTime = 0, v_duration = None\<rparr>"

definition renderedAudio :: audio_element where
  "renderedAudio =
     \<lparr>a_src = [], a_volume = 1, a_loop = False, a_paused = True, a_currentTime = 0,
      a_duration = None, a_readyState = 0, a_oncanplay = None, a_onceLoadedData = 0,
      a_onceCanPlay = 0, a_playCalls = 0\<rparr>"

definition renderBackground :: "card \<Rightarrow> background" where
  "renderBackground c = (if hasVideo c then VideoBackground renderedVideo else GradientPlaceholder)"

definition renderAudio :: "card \<Rightarrow> audio_element option" where
  "renderAudio c = (if hasVoiceover c then Some renderedAudio else None)"

text \<open>
  The first render.  \<open>isVisible\<close> and \<open>recipeIndex\<close> are optional props with the defaults
  \<open>false\<close> and \<open>0\<close>; the \<open>useState\<close> cells and \<open>prevVisibleRef\<close> start at \<open>false\<close>; the refs point
  at what was rendered.
\<close>

definition newCard ::
  "recipe \<Rightarrow> string list \<Rightarrow> culinary_plan option \<Rightarrow> bool option \<Rightarrow> nat option \<Rightarrow> card" where
  "newCard r urls plan isVisibleProp recipeIndexProp =
     (let c = \<lparr>recipe = r, videoUrls = urls, culinaryPlan = plan,
                isVisible = (case isVisibleProp of None \<Rightarrow> False | Some b \<Rightarrow> b),
                recipeIndex = (case recipeIndexProp of None \<Rightarrow> 0 | Some i \<Rightarrow> i),
                isDetailsVisible = False, isVoiceoverPlaying = False, isVoiceoverMuted = False,
                isFavorited = False, showLoginPrompt = False, prevVisibleRef = False,
                videoRef = None, audioRef = None, syncClosure = None, clock = 0,
                dispatched = [], console = []\<rparr>
      in c\<lparr>videoRef := (case renderBackground c of
                           VideoBackground v \<Rightarrow> Some v
                         | GradientPlaceholder \<Rightarrow> None),
            audioRef := renderAudio c\<rparr>)"

text \<open>
  The effects that run after a render in which \<open>isVisible\<close> changed, in declaration order, and
  all effects, as they run after the first render.  The announcement is delivered to the card's
  own listener too; \<open>handleStopAudio\<close> is applied to it for that reason.
\<close>

definition visibilityEffects :: "bool \<Rightarrow> card \<Rightarrow> card" where
  "visibilityEffects allowed c =
     (let c1 = (case stopAllAudioEvent c of
                  None \<Rightarrow> c
                | Some ev \<Rightarrow> handleStopAudio ev (announceEffect c))
      in syncEffect (playPauseEffect allowed (audioLoadEffect (videoLoadEffect c1))))"

definition mountCard :: "bool \<Rightarrow> bool \<Rightarrow> card \<Rightarrow> card" where
  "mountCard allowed isFavorite c = visibilityEffects allowed (favoritedEffect isFavorite c)"

text \<open>The parent re-renders the card with a new \<open>isVisible\<close>.\<close>

definition setIsVisible :: "bool \<Rightarrow> bool \<Rightarrow> card \<Rightarrow> card" where
  "setIsVisible allowed b c =
     (if b = isVisible c then c else visibilityEffects allowed (c\<lparr>isVisible := b\<rparr>))"


section \<open>What can happen to a mounted card\<close>

text \<open>
  The media elements change on their own as well: the video learns its duration, playback moves
  the position of an element that is not paused.
\<close>

definition videoLoadedMetadata :: "real \<Rightarrow> card \<Rightarrow> card" where
  "videoLoadedMetadata dur c =
     (case videoRef c of
        None \<Rightarrow> c
      | Some v \<Rightarrow> c\<lparr>videoRef := Some (v\<lparr>v_duration := Some dur\<rparr>)\<rparr>)"

definition audioProgress :: "real \<Rightarrow> card \<Rightarrow> card" where
  "audioProgress t c =
     (case audioRef c of
        None \<Rightarrow> c
      | Some a \<Rightarrow> if a_paused a then c else c\<lparr>audioRef := Some (a\<lparr>a_currentTime := t\<rparr>)\<rparr>)"

text \<open>
  The events of one card: what its media elements fire, the passing of time, an announcement
  received from the window, the two buttons, and a render by the parent with a value for
  \<open>isVisible\<close>.  Each event comes with the platform's answer to any \<open>play()\<close> request made while
  it is handled.
\<close>

datatype card_event =
  AudioLoadedData real
  | AudioCanPlay
  | AudioEnded
  | AudioProgress real
  | VideoLoadedMetadata real
  | VideoTimeUpdate real
  | VideoEnded
  | ClockAdvance nat
  | StopAllRecipeAudio stop_event
  | ToggleVoiceoverMute
  | ToggleVoiceover
  | ParentRenders bool

fun cardStep :: "card \<Rightarrow> bool \<times> card_event \<Rightarrow> card" where
  "cardStep c (allowed, AudioLoadedData dur) = audioLoadedData allowed dur c"
| "cardStep c (allowed, AudioCanPlay) = audioCanPlay allowed c"
| "cardStep c (allowed, AudioEnded) = handleEnded allowed c"
| "cardStep c (allowed, AudioProgress t) = audioProgress t c"
| "cardStep c (allowed, VideoLoadedMetadata dur) = videoLoadedMetadata dur c"
| "cardStep c (allowed, VideoTimeUpdate t) = videoTimeUpdate allowed t c"
| "cardStep c (allowed, VideoEnded) = handleVideoEnded allowed c"
| "cardStep c (allowed, ClockAdvance now) = advanceClock now c"
| "cardStep c (allowed, StopAllRecipeAudio ev) = handleStopAudio ev c"
| "cardStep c (allowed, ToggleVoiceoverMute) = toggleVoiceoverMute allowed c"
| "cardStep c (allowed, ToggleVoiceover) = toggleVoiceover allowed c"
| "cardStep c (allowed, ParentRenders b) = setIsVisible allowed b c"

definition cardRun :: "card \<Rightarrow> (bool \<times> card_event) list \<Rightarrow> card" where
  "cardRun c events = foldl cardStep c events"

section \<open>Several cards under one parent\<close>

text \<open>
  \<open>window.dispatchEvent\<close> calls every registered \<open>stopAllRecipeAudio\<close> listener before it
  returns; each listener touches only its own card.
\<close>

definition deliverStop :: "stop_event \<Rightarrow> card list \<Rightarrow> card list" where
  "deliverStop ev cs = map (handleStopAudio ev) cs"

text \<open>
  The effects of the card at position \<open>i\<close> after a render that changed its \<open>isVisible\<close>: its
  announcement, if it makes one, reaches all mounted cards, then its remaining effects run.
\<close>

definition cardEffectsAt :: "bool \<Rightarrow> nat \<Rightarrow> card list \<Rightarrow> card list" where
  "cardEffectsAt allowed i cs =
     (if i < length cs
      then (let cs1 = (case stopAllAudioEvent (cs ! i) of
                         None \<Rightarrow> cs
                       | Some ev \<Rightarrow> deliverStop ev cs)
            in cs1[i := visibilityEffects allowed (cs1 ! i)])
      else cs)"

text \<open>
  The parent renders card \<open>index\<close> with \<open>isVisible = (visibleIndex === index)\<close>.  React then
  runs the effects card by card, in the order of the list, for the cards whose \<open>isVisible\<close>
  changed.
\<close>

fun renderVisible :: "int \<Rightarrow> nat \<Rightarrow> card list \<Rightarrow> card list" where
  "renderVisible visibleIndex index [] = []"
| "renderVisible visibleIndex index (c # cs) =
     c\<lparr>isVisible := (visibleIndex = int index)\<rparr> # renderVisible visibleIndex (Suc index) cs"

fun changedIndices :: "int \<Rightarrow> nat \<Rightarrow> card list \<Rightarrow> nat list" where
  "changedIndices visibleIndex index [] = []"
| "changedIndices visibleIndex index (c # cs) =
     (if isVisible c \<noteq> (visibleIndex = int index) then [index] else [])
       @ changedIndices visibleIndex (Suc index) cs"

definition setVisibleIndex :: "bool \<Rightarrow> int \<Rightarrow> card list \<Rightarrow> card list" where
  "setVisibleIndex allowed visibleIndex cs =
     fold (cardEffectsAt allowed) (changedIndices visibleIndex 0 cs)
       (renderVisible visibleIndex 0 cs)"

text \<open>
  Mounting a list of cards: the mount effects run card by card, and an announcement made while
  mounting reaches the cards mounted before.
\<close>

fun mountFrom :: "bool \<Rightarrow> (card \<Rightarrow> bool) \<Rightarrow> card list \<Rightarrow> card list \<Rightarrow> card list" where
  "mountFrom allowed isFavorite mounted [] = mounted"
| "mountFrom allowed isFavorite mounted (c # cs) =
     (let mounted1 = (case stopAllAudioEvent c of
                        None \<Rightarrow> mounted
                      | Some ev \<Rightarrow> deliverStop ev mounted)
      in mountFrom allowed isFavorite (mounted1 @ [mountCard allowed (isFavorite c) c]) cs)"

text \<open>An event of one card of the list.\<close>

definition atCard :: "nat \<Rightarrow> (card \<Rightarrow> card) \<Rightarrow> card list \<Rightarrow> card list" where
  "atCard i f cs = (if i < length cs then cs[i := f (cs ! i)] else cs)"

section \<open>The three parents\<close>

text \<open>A string that JavaScript takes as true: present and not empty.\<close>

fun truthy :: "string option \<Rightarrow> bool" where
  "truthy None = False"
| "truthy (Some u) = (u \<noteq> [])"

record feed_item =
  fi_recipe :: recipe
  fi_videoUrl :: "string option"
  fi_voiceoverUrl :: "string option"

record favorite_recipe =
  fav_recipe :: recipe
  fav_ingredients :: "string list"
  fav_videoUrls :: "string list option"
  fav_voiceoverUrl :: "string option"

text \<open>
  FeedView: each item becomes a one-recipe plan whose voiceover table has the single key 0; the
  card gets \<open>isVisible = (visibleItemIndex === index)\<close> and \<open>recipeIndex = index\<close>.
\<close>

definition feedVideoUrls :: "feed_item \<Rightarrow> string list" where
  "feedVideoUrls item = (case fi_videoUrl item of
                           None \<Rightarrow> []
                         | Some u \<Rightarrow> if u \<noteq> [] then [u] else [])"

definition FeedView_card :: "int \<Rightarrow> nat \<Rightarrow> feed_item \<Rightarrow> card" where
  "FeedView_card visibleItemIndex index feedItem =
     newCard (fi_recipe feedItem) (feedVideoUrls feedItem)
       (Some \<lparr>ingredients = [], recipes = [fi_recipe feedItem],
               planVideoUrls = Some (feedVideoUrls feedItem),
               recipeVideos = Some (if truthy (fi_videoUrl feedItem)
                                    then [(0, feedVideoUrls feedItem)] else []),
               recipeVoiceovers = (case fi_voiceoverUrl feedItem of
                                     None \<Rightarrow> None
                                   | Some u \<Rightarrow> if u \<noteq> [] then Some [(0, u)] else None)\<rparr>)
       (Some (visibleItemIndex = int index)) (Some index)"

text \<open>
  FavoritesView: the same one-recipe plan; the card gets
  \<open>isVisible = (visibleFavoriteIndex === index)\<close> and \<open>recipeIndex = 0\<close>.
\<close>

definition favoriteVideoUrls :: "favorite_recipe \<Rightarrow> string list" where
  "favoriteVideoUrls favorite = (case fav_videoUrls favorite of None \<Rightarrow> [] | Some us \<Rightarrow> us)"

definition FavoritesView_card :: "int \<Rightarrow> nat \<Rightarrow> favorite_recipe \<Rightarrow> card" where
  "FavoritesView_card visibleFavoriteIndex index favorite =
     newCard (fav_recipe favorite) (favoriteVideoUrls favorite)
       (Some \<lparr>ingredients = fav_ingredients favorite, recipes = [fav_recipe favorite],
               planVideoUrls = Some (favoriteVideoUrls favorite),
               recipeVideos = Some [(0, favoriteVideoUrls favorite)],
               recipeVoiceovers = (case fav_voiceoverUrl favorite of
                                     None \<Rightarrow> None
                                   | Some u \<Rightarrow> if u \<noteq> [] then Some [(0, u)] else None)\<rparr>)
       (Some (visibleFavoriteIndex = int index)) (Some 0)"



fun mapIndexed :: "(nat \<Rightarrow> 'a \<Rightarrow> 'b) \<Rightarrow> nat \<Rightarrow> 'a list \<Rightarrow> 'b list" where
  "mapIndexed f index [] = []"
| "mapIndexed f index (x # xs) = f index x # mapIndexed f (Suc index) xs"

definition FeedView_cards :: "int \<Rightarrow> feed_item list \<Rightarrow> card list" where
  "FeedView_cards visibleItemIndex feedItems = mapIndexed (FeedView_card visibleItemIndex) 0 feedItems"

definition FavoritesView_cards :: "int \<Rightarrow> favorite_recipe list \<Rightarrow> card list" where
  "FavoritesView_cards visibleFavoriteIndex favorites =
     mapIndexed (FavoritesView_card visibleFavoriteIndex) 0 favorites"



section \<open>The visibility tracker of FeedView and FavoritesView\<close>

text \<open>
  Both parents hold the same two estimators, with names that differ only in \<open>Item\<close>/\<open>Favorite\<close>;
  the names below are FeedView's.  An element of \<open>itemRefs\<close> is \<open>null\<close> or a mounted \<open>div\<close>, of
  which the estimator reads the bounding rectangle.
\<close>

record element_rect =
  r_top :: real
  r_height :: real

record scroller =
  s_clientHeight :: real
  s_scrollTop :: real
  s_rectTop :: real

record feed_view =
  feedItemsLength :: nat
  itemRefs :: "element_rect option list"
  visibleItemIndex :: int

text \<open>\<open>useState<number>(0)\<close> for the index, \<open>useState([])\<close> for the items.\<close>

definition initialFeedView :: feed_view where
  "initialFeedView = \<lparr>feedItemsLength = 0, itemRefs = [], visibleItemIndex = 0\<rparr>"

definition distanceFromCenter :: "scroller \<Rightarrow> element_rect \<Rightarrow> real" where
  "distanceFromCenter sc rect =
     (let viewportCenter = s_scrollTop sc + s_clientHeight sc / 2;
          cardTop = r_top rect - s_rectTop sc + s_scrollTop sc;
          cardCenter = cardTop + r_height rect / 2
      in \<bar>cardCenter - viewportCenter\<bar>)"

text \<open>
  The \<open>forEach\<close> of \<open>handleScroll\<close> over the refs, carrying \<open>closestIndex\<close> and
  \<open>closestDistance\<close>; \<open>None\<close> is the initial \<open>Infinity\<close>.
\<close>

fun closestLoop ::
  "scroller \<Rightarrow> element_rect option list \<Rightarrow> nat \<Rightarrow> int \<times> real option \<Rightarrow> int \<times> real option" where
  "closestLoop sc [] index acc = acc"
| "closestLoop sc (ref # refs) index (closestIndex, closestDistance) =
     (case ref of
        None \<Rightarrow> closestLoop sc refs (Suc index) (closestIndex, closestDistance)
      | Some rect \<Rightarrow>
          if (case closestDistance of
                None \<Rightarrow> True
              | Some d \<Rightarrow> distanceFromCenter sc rect < d)
          then closestLoop sc refs (Suc index) (int index, Some (distanceFromCenter sc rect))
          else closestLoop sc refs (Suc index) (closestIndex, closestDistance))"

definition closestIndexOf :: "scroller \<Rightarrow> element_rect option list \<Rightarrow> int" where
  "closestIndexOf sc refs = fst (closestLoop sc refs 0 (- 1, None))"

definition handleScroll :: "scroller \<Rightarrow> feed_view \<Rightarrow> feed_view" where
  "handleScroll sc vw =
     (let closestIndex = closestIndexOf sc (itemRefs vw)
      in if closestIndex \<ge> 0 \<and> closestIndex \<noteq> visibleItemIndex vw
         then vw\<lparr>visibleItemIndex := closestIndex\<rparr>
         else vw)"

text \<open>
  The callback of the IntersectionObserver.  An entry is the index parsed from the target's
  data attribute (\<open>-1\<close> when absent) and its \<open>intersectionRatio\<close>.
\<close>

fun mostVisibleLoop :: "(int \<times> real) list \<Rightarrow> real \<times> int \<Rightarrow> real \<times> int" where
  "mostVisibleLoop [] acc = acc"
| "mostVisibleLoop ((index, ratio) # entries) (maxRatio, mostVisibleIndex) =
     (if index \<ge> 0 \<and> ratio > maxRatio
      then mostVisibleLoop entries (ratio, index)
      else mostVisibleLoop entries (maxRatio, mostVisibleIndex))"

definition mostVisibleIndexOf :: "(int \<times> real) list \<Rightarrow> int" where
  "mostVisibleIndexOf entries = snd (mostVisibleLoop entries (0, - 1))"

definition observerCallback :: "(int \<times> real) list \<Rightarrow> feed_view \<Rightarrow> feed_view" where
  "observerCallback entries vw =
     (let mostVisibleIndex = mostVisibleIndexOf entries
      in if mostVisibleIndex \<ge> 0 \<and> mostVisibleIndex \<noteq> visibleItemIndex vw
         then vw\<lparr>visibleItemIndex := mostVisibleIndex\<rparr>
         else vw)"

text \<open>
  The observer effect returns at once on an empty list; otherwise it observes the refs and, if
  the first ref is mounted, sets the index to 0.
\<close>

definition observerEffect :: "feed_view \<Rightarrow> feed_view" where
  "observerEffect vw =
     (if feedItemsLength vw = 0 then vw
      else (case itemRefs vw of
              Some rect # refs \<Rightarrow> vw\<lparr>visibleItemIndex := 0\<rparr>
            | _ \<Rightarrow> vw))"

text \<open>
  \<open>handleRemoveFavorite\<close> of FavoritesView, as far as the index goes: \<open>updatedLength\<close> is the
  length of the list after the removal.
\<close>

definition handleRemoveFavorite :: "nat \<Rightarrow> feed_view \<Rightarrow> feed_view" where
  "handleRemoveFavorite updatedLength vw =
     (let currentLength = feedItemsLength vw;
          vw1 = vw\<lparr>feedItemsLength := updatedLength\<rparr>
      in if updatedLength = 0 then vw1
         else if visibleItemIndex vw \<ge> int currentLength - 1
         then vw1\<lparr>visibleItemIndex := max 0 (int updatedLength - 1)\<rparr>
         else vw1)"

text \<open>
  What can happen to a mounted parent.  The observer and the scroll listener exist only while
  the list is not empty: both effects return before creating them otherwise.
\<close>

datatype view_event =
  ItemsLoaded nat "element_rect option list"
  | ObserverEffect
  | ObserverBatch "(int \<times> real) list"
  | ScrollSample scroller
  | RemoveFavorite nat

fun viewStep :: "feed_view \<Rightarrow> view_event \<Rightarrow> feed_view" where
  "viewStep vw (ItemsLoaded n refs) = vw\<lparr>feedItemsLength := n, itemRefs := refs\<rparr>"
| "viewStep vw ObserverEffect = observerEffect vw"
| "viewStep vw (ObserverBatch entries) =
     (if feedItemsLength vw = 0 then vw else observerCallback entries vw)"
| "viewStep vw (ScrollSample sc) =
     (if feedItemsLength vw = 0 then vw else handleScroll sc vw)"
| "viewStep vw (RemoveFavorite updatedLength) = handleRemoveFavorite updatedLength vw"

definition viewRun :: "feed_view \<Rightarrow> view_event list \<Rightarrow> feed_view" where
  "viewRun vw events = foldl viewStep vw events"


section \<open>A card that was never visible\<close>


text \<open>
  The state of a card that has never been visible: it has announced nothing, its sync handler
  is not attached, and its audio element, if any, is paused, has received no \<open>play()\<close> request,
  has no pending listener that would request one, and has no \<open>oncanplay\<close> handler that closed
  over \<open>isVisible = true\<close>.
\<close>

definition neverActivated :: "card \<Rightarrow> bool" where
  "neverActivated c \<longleftrightarrow>
     \<not> isVisible c \<and> \<not> prevVisibleRef c \<and> dispatched c = [] \<and> syncClosure c = None
     \<and> \<not> isVoiceoverPlaying c
     \<and> (case audioRef c of
          None \<Rightarrow> True
        | Some a \<Rightarrow>
            a_paused a \<and> a_playCalls a = 0 \<and> a_onceLoadedData a = 0 \<and> a_onceCanPlay a = 0
            \<and> (case a_oncanplay a of
                  None \<Rightarrow> True
                | Some (capturedVisible, capturedMuted) \<Rightarrow> \<not> capturedVisible))"

section \<open>What the estimators are specified to select\<close>



section \<open>Example data\<close>

definition exampleRecipe :: recipe where
  "exampleRecipe =
     \<lparr>title = ''Pasta'', time_minutes = 20, difficulty = easy,
      steps = [''Boil'', ''Serve''], missing_items = []\<rparr>"

text \<open>
  Two favorites, each with one video and a voiceover, as FavoritesView mounts them with the
  first one visible; the platform grants playback, and the favorites service knows both.
\<close>

definition favoriteA :: favorite_recipe where
  "favoriteA =
     \<lparr>fav_recipe = exampleRecipe, fav_ingredients = [''flour''],
      fav_videoUrls = Some [''https://v/a.mp4''], fav_voiceoverUrl = Some ''https://v/a.mp3''\<rparr>"

definition favoriteB :: favorite_recipe where
  "favoriteB =
     \<lparr>fav_recipe = exampleRecipe\<lparr>title := ''Soup''\<rparr>, fav_ingredients = [''leek''],
      fav_videoUrls = Some [''https://v/b.mp4''], fav_voiceoverUrl = Some ''https://v/b.mp3''\<rparr>"

definition favoritesMounted :: "card list" where
  "favoritesMounted =
     mountFrom True (\<lambda>c. True) [] (FavoritesView_cards 0 [favoriteA, favoriteB])"

text \<open>
  The second of them, still hidden: its voiceover has loaded, and its muted video has been
  playing since the mount and has reached 3.5 s.
\<close>

definition hiddenReadyCard :: card where
  "hiddenReadyCard =
     cardRun (favoritesMounted ! 1)
       [(True, AudioLoadedData 25), (True, VideoLoadedMetadata 10), (True, VideoTimeUpdate 3.5)]"

text \<open>
  The same card after it was activated and its voiceover started; then with the voiceover
  muted; and, from the hidden card again, activated while the platform rejects playback.
\<close>

definition visiblePlayingCard :: card where
  "visiblePlayingCard =
     cardRun hiddenReadyCard [(True, ParentRenders True), (True, AudioProgress 6.5)]"




text \<open>
  The two favorites once more.  In \<open>favoritesScrolled\<close> both voiceovers have loaded, the first
  card has started playing, and the user has scrolled to the second card.  In
  \<open>favoritesScrolledEarly\<close> the user has scrolled to the second card before either voiceover had
  loaded, and the two voiceovers load afterwards.
\<close>

definition favoritesScrolled :: "card list" where
  "favoritesScrolled =
     setVisibleIndex True 1
       (atCard 1 (audioLoadedData True 25) (atCard 0 (audioLoadedData True 30) favoritesMounted))"

definition favoritesScrolledEarly :: "card list" where
  "favoritesScrolledEarly =
     atCard 1 (audioLoadedData True 25)
       (atCard 0 (audioLoadedData True 30) (setVisibleIndex True 1 favoritesMounted))"

text \<open>
  A visible card whose voiceover plays at 20 s while its video plays at 3.5 s, and the video
  going on steadily: for each \<open>k\<close> of the list, at \<open>250 k\<close> ms the video reports the time
  \<open>3.5 + k / 4\<close>.
\<close>

definition driftingCard :: card where
  "driftingCard = cardRun visiblePlayingCard [(True, AudioProgress 20)]"

definition steadyPlayback :: "nat list \<Rightarrow> (bool \<times> card_event) list" where
  "steadyPlayback ks =
     concat (map (\<lambda>k. [(True, ClockAdvance (250 * k)), (True, VideoTimeUpdate (3.5 + real k / 4))])
               ks)"

section \<open>C9: the favorite button without a session\<close>

text \<open>
  C9.  When \<open>authService.isAuthenticated()\<close> answers false, a click on the favorite button shows
  the login prompt and changes nothing else: the favorites store is the same, \<open>onFavoriteChange\<close>
  is not called, and the card differs from the old one in \<open>showLoginPrompt\<close> only, so that
  \<open>isFavorited\<close> is untouched.
\<close>

theorem toggleFavorite_unauthenticated:
  "\<not> isAuthenticated \<Longrightarrow>
     toggleFavorite isAuthenticated addFavorite removeFavorite (c, store, notified)
       = (c\<lparr>showLoginPrompt := True\<rparr>, store, notified)"
  by (simp add: toggleFavorite_def)

theorem toggleFavorite_unauthenticated_witness:
  "\<not> False \<and>
   toggleFavorite False (\<lambda>c s. title (recipe c) # s) (\<lambda>c s. removeAll (title (recipe c)) s)
       (newCard exampleRecipe [] None None None, [''Soup''], 0)
     = ((newCard exampleRecipe [] None None None)\<lparr>showLoginPrompt := True\<rparr>, [''Soup''], 0)"
  using toggleFavorite_unauthenticated
          [of False "\<lambda>c s. title (recipe c) # s" "\<lambda>c s. removeAll (title (recipe c)) s"
              "newCard exampleRecipe [] None None None" "[''Soup'']" 0]
  by simp


section \<open>C5, C6: the visibility tracker\<close>

subsection \<open>The scroll estimator\<close>








subsection \<open>The intersection estimator\<close>








subsection \<open>Selection and publication\<close>











subsection \<open>The published index\<close>

lemma viewStep_nonneg: "0 \<le> visibleItemIndex vw \<Longrightarrow> 0 \<le> visibleItemIndex (viewStep vw e)"
proof (cases e)
  case (ItemsLoaded n refs)
  assume "0 \<le> visibleItemIndex vw"
  then show ?thesis using ItemsLoaded by simp
next
  case ObserverEffect
  assume "0 \<le> visibleItemIndex vw"
  then show ?thesis using ObserverEffect
    by (simp add: observerEffect_def split: list.splits option.splits)
next
  case (ObserverBatch entries)
  assume "0 \<le> visibleItemIndex vw"
  then show ?thesis using ObserverBatch by (simp add: observerCallback_def Let_def)
next
  case (ScrollSample sc)
  assume "0 \<le> visibleItemIndex vw"
  then show ?thesis using ScrollSample by (simp add: handleScroll_def Let_def)
next
  case (RemoveFavorite n)
  assume "0 \<le> visibleItemIndex vw"
  then show ?thesis using RemoveFavorite by (simp add: handleRemoveFavorite_def Let_def)
qed

lemma viewRun_nonneg: "0 \<le> visibleItemIndex vw \<Longrightarrow> 0 \<le> visibleItemIndex (viewRun vw events)"
  unfolding viewRun_def
  by (induction events arbitrary: vw) (simp_all add: viewStep_nonneg)

lemma viewStep_empty:
  "feedItemsLength vw = 0 \<Longrightarrow>
     viewStep vw ObserverEffect = vw \<and> viewStep vw (ObserverBatch entries) = vw
     \<and> viewStep vw (ScrollSample sc) = vw"
  by (simp add: observerEffect_def)

text \<open>
  C6 (as amended).  The active index starts at 0 and no event of the view makes it negative:
  there is no unset value.  While the list is empty the observer effect, an observer batch and a
  scroll sample leave the view as it is, and no card is rendered; as soon as a list is rendered
  with the initial index, its card 0 is visible, before any measurement.
\<close>

theorem activeIndex_starts_at_zero:
  "visibleItemIndex initialFeedView = 0
   \<and> 0 \<le> visibleItemIndex (viewRun initialFeedView events)
   \<and> (feedItemsLength vw = 0 \<longrightarrow>
        viewStep vw ObserverEffect = vw \<and> viewStep vw (ObserverBatch entries) = vw
        \<and> viewStep vw (ScrollSample sc) = vw)
   \<and> FeedView_cards (visibleItemIndex vw) [] = []
   \<and> FavoritesView_cards (visibleItemIndex vw) [] = []
   \<and> isVisible (FeedView_card (visibleItemIndex initialFeedView) 0 feedItem)
   \<and> isVisible (FavoritesView_card (visibleItemIndex initialFeedView) 0 favorite)"
proof -
  have init: "visibleItemIndex initialFeedView = 0" by (simp add: initialFeedView_def)
  have nonneg: "0 \<le> visibleItemIndex (viewRun initialFeedView events)"
    by (rule viewRun_nonneg) (simp add: init)
  have empty: "feedItemsLength vw = 0 \<longrightarrow>
        viewStep vw ObserverEffect = vw \<and> viewStep vw (ObserverBatch entries) = vw
        \<and> viewStep vw (ScrollSample sc) = vw"
    by (rule impI) (rule viewStep_empty)
  have none1: "FeedView_cards (visibleItemIndex vw) [] = []" by (simp add: FeedView_cards_def)
  have none2: "FavoritesView_cards (visibleItemIndex vw) [] = []" by (simp add: FavoritesView_cards_def)
  have first1: "isVisible (FeedView_card (visibleItemIndex initialFeedView) 0 feedItem)"
    by (simp add: init FeedView_card_def newCard_def Let_def)
  have first2: "isVisible (FavoritesView_card (visibleItemIndex initialFeedView) 0 favorite)"
    by (simp add: init FavoritesView_card_def newCard_def Let_def)
  show ?thesis by (intro conjI init nonneg empty none1 none2 first1 first2)
qed

text \<open>
  The freshly mounted view has an empty list and has measured nothing, and its index is not
  \<open>-1\<close>.
\<close>

theorem activeIndex_unset_counterexample:
  "visibleItemIndex initialFeedView \<noteq> - 1 \<and> feedItemsLength initialFeedView = 0"
  by (simp add: initialFeedView_def)

theorem activeIndex_starts_at_zero_witness:
  "feedItemsLength initialFeedView = 0
   \<and> viewStep initialFeedView (ObserverBatch [(1, 0.9)]) = initialFeedView
   \<and> viewStep initialFeedView
        (ScrollSample \<lparr>s_clientHeight = 800, s_scrollTop = 800, s_rectTop = 0\<rparr>) = initialFeedView
   \<and> viewStep initialFeedView ObserverEffect = initialFeedView
   \<and> visibleItemIndex initialFeedView = 0
   \<and> 0 \<le> visibleItemIndex
           (viewRun initialFeedView
              [ItemsLoaded 2 [Some \<lparr>r_top = 0, r_height = 800\<rparr>, Some \<lparr>r_top = 800, r_height = 800\<rparr>],
               ObserverEffect, ObserverBatch [(1, 0.9)], RemoveFavorite 1])"
proof -
  have h: "feedItemsLength initialFeedView = 0" by (simp add: initialFeedView_def)
  note t = activeIndex_starts_at_zero
             [of "[ItemsLoaded 2 [Some \<lparr>r_top = 0, r_height = 800\<rparr>, Some \<lparr>r_top = 800, r_height = 800\<rparr>],
               ObserverEffect, ObserverBatch [(1, 0.9)], RemoveFavorite 1]"
                 initialFeedView "[(1, 0.9)]"
                 "\<lparr>s_clientHeight = 800, s_scrollTop = 800, s_rectTop = 0\<rparr>"]
  show ?thesis using t h by simp
qed

section \<open>C2, C7: activation of a card\<close>

subsection \<open>What the effects leave untouched\<close>


lemma videoLoadEffect_audio [simp]:
  "audioRef (videoLoadEffect c) = audioRef c"
  "isVisible (videoLoadEffect c) = isVisible c"
  "prevVisibleRef (videoLoadEffect c) = prevVisibleRef c"
  "isVoiceoverMuted (videoLoadEffect c) = isVoiceoverMuted c"
  "isVoiceoverPlaying (videoLoadEffect c) = isVoiceoverPlaying c"
  "console (videoLoadEffect c) = console c"
  "dispatched (videoLoadEffect c) = dispatched c"
  "culinaryPlan (videoLoadEffect c) = culinaryPlan c"
  "recipeIndex (videoLoadEffect c) = recipeIndex c"
  "videoUrls (videoLoadEffect c) = videoUrls c"
  by (simp_all add: videoLoadEffect_def split: option.splits list.splits)

lemma announceEffect_fields [simp]:
  "audioRef (announceEffect c) = audioRef c"
  "videoRef (announceEffect c) = videoRef c"
  "isVisible (announceEffect c) = isVisible c"
  "prevVisibleRef (announceEffect c) = prevVisibleRef c"
  "isVoiceoverMuted (announceEffect c) = isVoiceoverMuted c"
  "isVoiceoverPlaying (announceEffect c) = isVoiceoverPlaying c"
  "console (announceEffect c) = console c"
  "culinaryPlan (announceEffect c) = culinaryPlan c"
  "recipeIndex (announceEffect c) = recipeIndex c"
  "videoUrls (announceEffect c) = videoUrls c"
  by (simp_all add: announceEffect_def split: option.splits)

lemma syncEffect_fields [simp]:
  "audioRef (syncEffect c) = audioRef c"
  "videoRef (syncEffect c) = videoRef c"
  "isVisible (syncEffect c) = isVisible c"
  "prevVisibleRef (syncEffect c) = prevVisibleRef c"
  "isVoiceoverMuted (syncEffect c) = isVoiceoverMuted c"
  "isVoiceoverPlaying (syncEffect c) = isVoiceoverPlaying c"
  "console (syncEffect c) = console c"
  "dispatched (syncEffect c) = dispatched c"
  by (simp_all add: syncEffect_def)

lemma hasVoiceover_cong [simp]:
  "hasVoiceover (videoLoadEffect c) = hasVoiceover c"
  "hasVoiceover (announceEffect c) = hasVoiceover c"
  "voiceoverUrl (videoLoadEffect c) = voiceoverUrl c"
  "voiceoverUrl (announceEffect c) = voiceoverUrl c"
  by (simp_all add: hasVoiceover_def voiceoverUrl_def split: option.splits)



lemma audioLoadEffect_fields [simp]:
  "isVisible (audioLoadEffect c) = isVisible c"
  "prevVisibleRef (audioLoadEffect c) = prevVisibleRef c"
  "isVoiceoverMuted (audioLoadEffect c) = isVoiceoverMuted c"
  "isVoiceoverPlaying (audioLoadEffect c) = isVoiceoverPlaying c"
  "console (audioLoadEffect c) = console c"
  "dispatched (audioLoadEffect c) = dispatched c"
  "videoRef (audioLoadEffect c) = videoRef c"
  "hasVoiceover (audioLoadEffect c) = hasVoiceover c"
  by (simp_all add: audioLoadEffect_def hasVoiceover_def voiceoverUrl_def split: option.splits)

subsection \<open>The play/pause effect on activation\<close>





lemma hasVoiceover_isVisible_update [simp]:
  "hasVoiceover (c\<lparr>isVisible := b\<rparr>) = hasVoiceover c"
  "voiceoverUrl (c\<lparr>isVisible := b\<rparr>) = voiceoverUrl c"
  "voiceoverVolume (c\<lparr>isVisible := b\<rparr>) = voiceoverVolume c"
  by (simp_all add: hasVoiceover_def voiceoverUrl_def voiceoverVolume_def split: option.splits)

lemma voiceoverVolume_cong [simp]:
  "voiceoverVolume (videoLoadEffect c) = voiceoverVolume c"
  "voiceoverVolume (announceEffect c) = voiceoverVolume c"
  by (simp_all add: voiceoverVolume_def)



subsection \<open>Rejected requests and the video\<close>

lemma playPauseEffect_videoRef [simp]: "videoRef (playPauseEffect allowed c) = videoRef c"
  by (simp add: playPauseEffect_def Let_def attemptPlay_def playAndCatch_def stopAudio_def
           split: option.splits)










subsection \<open>The claims\<close>






section \<open>C3: the loop boundary\<close>






section \<open>C7: a request repeated at the loop boundary\<close>


section \<open>C10: the cards of RecipeScroller\<close>

subsection \<open>Events preserve the never-visible state\<close>

lemma neverActivated_no_audio:
  "audioRef c = None \<Longrightarrow>
     neverActivated c \<longleftrightarrow>
       \<not> isVisible c \<and> \<not> prevVisibleRef c \<and> dispatched c = [] \<and> syncClosure c = None
       \<and> \<not> isVoiceoverPlaying c"
  by (simp add: neverActivated_def)
























subsection \<open>The claim\<close>



section \<open>C8: cards without media\<close>

subsection \<open>A card without an audio element\<close>







lemma favoritedEffect_fields [simp]:
  "audioRef (favoritedEffect f c) = audioRef c"
  "videoRef (favoritedEffect f c) = videoRef c"
  "syncClosure (favoritedEffect f c) = syncClosure c"
  "isVoiceoverPlaying (favoritedEffect f c) = isVoiceoverPlaying c"
  "console (favoritedEffect f c) = console c"
  "videoUrls (favoritedEffect f c) = videoUrls c"
  by (simp_all add: favoritedEffect_def split: option.splits)



subsection \<open>The claim\<close>



section \<open>C1: the stop announcement\<close>

lemma handleStopAudio_other:
  assumes "exceptIndex ev \<noteq> recipeIndex c" "newVisibleIndex ev \<noteq> recipeIndex c"
    and "audioRef c = Some a"
  shows "audioRef (handleStopAudio ev c) = Some (a\<lparr>a_paused := True, a_currentTime := 0\<rparr>)
         \<and> \<not> isVoiceoverPlaying (handleStopAudio ev c)"
  using assms by (simp add: handleStopAudio_def stopAudio_def pause_def)

lemma handleStopAudio_same_index:
  "exceptIndex ev = recipeIndex c \<or> newVisibleIndex ev = recipeIndex c
     \<Longrightarrow> handleStopAudio ev c = c"
  by (auto simp: handleStopAudio_def)

text \<open>
  C1, on the code.  FavoritesView gives every card \<open>recipeIndex = 0\<close>.  With two favorites
  mounted, the second visible and playing, the parent makes the first visible: the first card
  announces \<open>{exceptIndex: 0, newVisibleIndex: 0}\<close>, the delivery of that announcement changes
  no card, and when the first card's effects have run both cards are playing with
  \<open>isVoiceoverPlaying\<close> set; the second stops only when its own effect sees that it became
  hidden.  And when the user scrolls from the first card to the second before the voiceovers
  have loaded, the \<open>loadeddata\<close> listener left on the first card starts it while it is hidden:
  after both voiceovers have loaded, both cards are playing, and no handler is pending.
\<close>

theorem favorites_announcement_ignored:
  "map recipeIndex favoritesScrolled = [0, 0]
   \<and> map (\<lambda>c. (isVisible c, isVoiceoverPlaying c, map_option a_paused (audioRef c)))
         favoritesScrolled
       = [(False, False, Some True), (True, True, Some False)]
   \<and> stopAllAudioEvent (renderVisible 0 0 favoritesScrolled ! 0)
       = Some \<lparr>exceptIndex = 0, newVisibleIndex = 0\<rparr>
   \<and> deliverStop \<lparr>exceptIndex = 0, newVisibleIndex = 0\<rparr> (renderVisible 0 0 favoritesScrolled)
       = renderVisible 0 0 favoritesScrolled
   \<and> map (\<lambda>c. (isVisible c, isVoiceoverPlaying c, map_option a_paused (audioRef c)))
         (cardEffectsAt True 0 (renderVisible 0 0 favoritesScrolled))
       = [(True, True, Some False), (False, True, Some False)]
   \<and> map (\<lambda>c. (isVisible c, isVoiceoverPlaying c, map_option a_paused (audioRef c)))
         favoritesScrolledEarly
       = [(False, True, Some False), (True, True, Some False)]"
  by code_simp

section \<open>C4: the drift check\<close>

lemma handleVideoTimeUpdate_rearms:
  assumes "syncClosure c = Some s" "videoRef c = Some v" "audioRef c = Some a"
  shows "syncClosure (handleVideoTimeUpdate allowed c)
           = Some \<lparr>lastVideoTime = v_currentTime v,
                   syncTimeout = Some (clock c + 2000, v_currentTime v)\<rparr>"
  using assms by (simp add: handleVideoTimeUpdate_def Let_def playAndCatch_def)

lemma advanceClock_not_due:
  assumes "syncClosure c = Some s" "syncTimeout s = Some (due, t)" "now < due"
  shows "advanceClock now c = c\<lparr>clock := now\<rparr>"
  using assms by (simp add: advanceClock_def)

lemma syncTimeoutCallback_corrects:
  assumes "videoRef c = Some v" "audioRef c = Some a" "\<not> a_paused a" "\<not> v_paused v"
    and "a_duration a = Some d" "jsRemainder t d = Some expected"
    and "\<bar>a_currentTime a - expected\<bar> > 1"
  shows "audioRef (syncTimeoutCallback t c) = Some (a\<lparr>a_currentTime := expected\<rparr>)"
  using assms by (simp add: syncTimeoutCallback_def)

text \<open>
  C4, on the code.  Both tracks of a visible card are playing, the audio 16.5 s away from the
  video.  The video reports its time every 250 ms, and every report replaces the pending
  timeout by one due 2000 ms later.  After 16 reports, 4000 ms later, the card differs from the
  initial one in the video position, the sync closure and the clock only: no check has run, the
  audio is where it was, and the timeout is pending for 6000 ms.
\<close>

theorem drift_check_debounced:
  "map_option a_paused (audioRef driftingCard) = Some False
   \<and> map_option v_paused (videoRef driftingCard) = Some False
   \<and> map_option a_currentTime (audioRef driftingCard) = Some 20
   \<and> map_option v_currentTime (videoRef driftingCard) = Some 3.5
   \<and> cardRun driftingCard (steadyPlayback [1, 2, 3, 4, 5, 6, 7, 8, 9, 10, 11, 12, 13, 14, 15, 16])
       = driftingCard
           \<lparr>videoRef := map_option (\<lambda>v. v\<lparr>v_currentTime := 7.5\<rparr>) (videoRef driftingCard),
            syncClosure := Some \<lparr>lastVideoTime = 7.5, syncTimeout = Some (6000, 7.5)\<rparr>,
            clock := 4000\<rparr>"
  by code_simp

text \<open>
  Only when the video then stays silent for 2000 ms does the check run, once, against the
  video time of the last report.
\<close>

lemma drift_check_after_silence:
  "map_option a_currentTime
     (audioRef (cardRun driftingCard
        (steadyPlayback [1, 2, 3, 4, 5, 6, 7, 8, 9, 10, 11, 12, 13, 14, 15, 16]
           @ [(True, ClockAdvance 6000)]))) = Some 7.5"
  by code_simp

end
